theory Spec2Isabelle
  imports Main "HOL-Library.Word" "HOL-Library.Signed_Division"
begin

section \<open>Machine integers\<close>

text \<open>
  Go's \<open>int\<close> is a two's complement machine integer, 64 bits wide on the usual targets.
  Arithmetic wraps around; \<open>sint\<close> reads the signed value.
\<close>

type_synonym go_int = "64 word"

text \<open>
  Go's \<open>%\<close> truncates towards zero: the remainder takes the sign of the dividend.
  Every divisor in the programs below is a non-zero literal, so the run-time panic of a
  zero divisor is not reachable through them.
\<close>

definition go_rem :: "go_int \<Rightarrow> go_int \<Rightarrow> go_int" where
  "go_rem a b = word_of_int (sint a smod sint b)"

section \<open>Formatting an integer: \<open>fmt.Sprint\<close>\<close>

text \<open>
  \<open>fmt.Sprint\<close> belongs to Go's standard library. Applied to one \<open>int\<close> it prints the
  value in base ten, most significant digit first, without leading zeros, with a leading
  minus sign for a negative value.
\<close>

fun digits :: "nat \<Rightarrow> string" where
  "digits n = (if n < 10 then [char_of (48 + n)]
               else digits (n div 10) @ [char_of (48 + n mod 10)])"

declare digits.simps [simp del]

definition Sprint :: "go_int \<Rightarrow> string" where
  "Sprint n = (if sint n < 0 then CHR ''-'' # digits (nat (- sint n))
               else digits (nat (sint n)))"

text \<open>The value a string of decimal digits denotes, read from the left.\<close>

definition digits_value :: "string \<Rightarrow> nat" where
  "digits_value s = foldl (\<lambda>a c. 10 * a + (of_char c - 48)) 0 s"

section \<open>Exercise 3: FizzBuzz\<close>

text \<open>
  \<^verbatim>\<open>
  func FizzBuzz(n int) (result string, wasModified bool) {
      wasModified = true
      switch {
      case n%15 == 0: result = "FizzBuzz"
      case n%3 == 0:  result = "Fizz"
      case n%5 == 0:  result = "Buzz"
      default:
          result = fmt.Sprint(n)
          wasModified = false
      }
      return
  }
  \<close>
  The function returns the pair of its two named results.
\<close>

definition FizzBuzz :: "go_int \<Rightarrow> string \<times> bool" where
  "FizzBuzz n =
     (if go_rem n 15 = 0 then (''FizzBuzz'', True)
      else if go_rem n 3 = 0 then (''Fizz'', True)
      else if go_rem n 5 = 0 then (''Buzz'', True)
      else (Sprint n, False))"

section \<open>Closures: the generator\<close>

text \<open>
  \<^verbatim>\<open>
  func idGenerator(start int) func() int {
      id := start - 1
      return func() int {
          id++
          return id
      }
  }
  \<close>
  The returned function owns the variable \<open>id\<close>: a closure is modelled by the current
  value of the variable it captured, and calling it returns the result together with the
  closure as the call left it.
\<close>

datatype closure = Closure (captured_id: go_int)

definition idGenerator :: "go_int \<Rightarrow> closure" where
  "idGenerator start = Closure (start - 1)"

definition invoke :: "closure \<Rightarrow> go_int \<times> closure" where
  "invoke c = (let id' = captured_id c + 1 in (id', Closure id'))"

text \<open>The results of \<open>n\<close> successive calls of one closure, in order.\<close>

fun invoke_n :: "nat \<Rightarrow> closure \<Rightarrow> go_int list" where
  "invoke_n 0 c = []"
| "invoke_n (Suc n) c = (case invoke c of (v, c') \<Rightarrow> v # invoke_n n c')"

section \<open>Floating point: \<open>float64\<close>\<close>

text \<open>
  Go's \<open>float64\<close> is the set of IEEE 754 binary64 numbers. A value is a NaN, an infinity
  with its sign, or a finite number \<open>Fin s m e\<close> standing for \<open>(-1)^s * m * 2^e\<close>; the sign
  is \<open>True\<close> for a negative number. The format's own values are the zeros and subnormals
  \<open>m < 2^52\<close>, \<open>e = -1074\<close> and the normal numbers \<open>2^52 \<le> m < 2^53\<close>,
  \<open>-1074 \<le> e \<le> 971\<close>; rounding produces only those.
\<close>

datatype float64 = NaN | Infty bool | Fin bool nat int

definition zero64 :: "bool \<Rightarrow> float64" where
  "zero64 s = Fin s 0 (- 1074)"

fun finite64 :: "float64 \<Rightarrow> bool" where
  "finite64 (Fin s m e) = True"
| "finite64 x = False"

text \<open>The number of binary digits of a natural number.\<close>

fun bit_length :: "nat \<Rightarrow> nat" where
  "bit_length n = (if n = 0 then 0 else Suc (bit_length (n div 2)))"

declare bit_length.simps [simp del]

text \<open>
  \<open>ilog2 p q\<close> is the binary exponent of the positive fraction \<open>p / q\<close>: the integer \<open>k\<close>
  with \<open>2^k \<le> p / q < 2^(k + 1)\<close>.
\<close>

definition ilog2 :: "nat \<Rightarrow> nat \<Rightarrow> int" where
  "ilog2 p q =
     (let d = int (bit_length p) - int (bit_length q)
      in if (if 0 \<le> d then q * 2 ^ nat d \<le> p else q \<le> p * 2 ^ nat (- d)) then d else d - 1)"

text \<open>The integer nearest to \<open>p / q\<close>, the even one of the two when \<open>p / q\<close> lies halfway.\<close>

definition round_nearest_even :: "nat \<Rightarrow> nat \<Rightarrow> nat" where
  "round_nearest_even p q =
     (let d = p div q; r = p mod q
      in if 2 * r < q then d
         else if q < 2 * r then d + 1
         else if even d then d else d + 1)"

text \<open>
  \<open>round64 s p q\<close> rounds the exact number \<open>(-1)^s * p / q\<close> to \<open>float64\<close>, to nearest
  with ties to even: 53 significant bits, the last place never below \<open>2^(-1074)\<close>
  (gradual underflow), and an infinity when the rounded magnitude reaches \<open>2^1024\<close>.
\<close>

definition round64 :: "bool \<Rightarrow> nat \<Rightarrow> nat \<Rightarrow> float64" where
  "round64 s p q =
     (if p = 0 then zero64 s
      else
        let e = max (ilog2 p q) (- 1022) - 52;
            m = (if 0 \<le> e then round_nearest_even p (q * 2 ^ nat e)
                 else round_nearest_even (p * 2 ^ nat (- e)) q);
            m' = (if m = 2 ^ 53 then 2 ^ 52 else m);
            e' = (if m = 2 ^ 53 then e + 1 else e)
        in if 971 < e' then Infty s else Fin s m' e')"

text \<open>Rounding \<open>(-1)^s * p * 2^g\<close>.\<close>

definition round_scaled :: "bool \<Rightarrow> nat \<Rightarrow> int \<Rightarrow> float64" where
  "round_scaled s p g =
     (if 0 \<le> g then round64 s (p * 2 ^ nat g) 1 else round64 s p (2 ^ nat (- g)))"

definition signed :: "bool \<Rightarrow> nat \<Rightarrow> int" where
  "signed s m = (if s then - int m else int m)"

text \<open>
  The arithmetic of IEEE 754: every operation computes the exact result of its operands
  and rounds it once. Adding a zero to a non-zero number leaves the number as it is; an
  exact zero sum is \<open>+0\<close> unless both operands are \<open>-0\<close>; the sign
  of a product or quotient is the exclusive or of the signs; \<open>\<infinity> - \<infinity>\<close>, \<open>0 * \<infinity>\<close>,
  \<open>0 / 0\<close> and \<open>\<infinity> / \<infinity>\<close> are NaN; a non-zero number divided by zero is an infinity.
\<close>

fun fneg :: "float64 \<Rightarrow> float64" where
  "fneg NaN = NaN"
| "fneg (Infty s) = Infty (\<not> s)"
| "fneg (Fin s m e) = Fin (\<not> s) m e"

fun fadd :: "float64 \<Rightarrow> float64 \<Rightarrow> float64" where
  "fadd NaN y = NaN"
| "fadd x NaN = NaN"
| "fadd (Infty s) (Infty t) = (if s = t then Infty s else NaN)"
| "fadd (Infty s) (Fin t n f) = Infty s"
| "fadd (Fin s m e) (Infty t) = Infty t"
| "fadd (Fin s m e) (Fin t n f) =
     (if m = 0 \<and> n = 0 then zero64 (s \<and> t)
      else if m = 0 then Fin t n f
      else if n = 0 then Fin s m e
      else
        let g = min e f;
            c = signed s (m * 2 ^ nat (e - g)) + signed t (n * 2 ^ nat (f - g))
        in if c = 0 then zero64 False else round_scaled (c < 0) (nat \<bar>c\<bar>) g)"

definition fsub :: "float64 \<Rightarrow> float64 \<Rightarrow> float64" where
  "fsub x y = fadd x (fneg y)"

fun fmul :: "float64 \<Rightarrow> float64 \<Rightarrow> float64" where
  "fmul NaN y = NaN"
| "fmul x NaN = NaN"
| "fmul (Infty s) (Infty t) = Infty (s \<noteq> t)"
| "fmul (Infty s) (Fin t n f) = (if n = 0 then NaN else Infty (s \<noteq> t))"
| "fmul (Fin s m e) (Infty t) = (if m = 0 then NaN else Infty (s \<noteq> t))"
| "fmul (Fin s m e) (Fin t n f) =
     (if m = 0 \<or> n = 0 then zero64 (s \<noteq> t) else round_scaled (s \<noteq> t) (m * n) (e + f))"

fun fdiv :: "float64 \<Rightarrow> float64 \<Rightarrow> float64" where
  "fdiv NaN y = NaN"
| "fdiv x NaN = NaN"
| "fdiv (Infty s) (Infty t) = NaN"
| "fdiv (Infty s) (Fin t n f) = Infty (s \<noteq> t)"
| "fdiv (Fin s m e) (Infty t) = zero64 (s \<noteq> t)"
| "fdiv (Fin s m e) (Fin t n f) =
     (if n = 0 then (if m = 0 then NaN else Infty (s \<noteq> t))
      else if m = 0 then zero64 (s \<noteq> t)
      else if f \<le> e then round64 (s \<noteq> t) (m * 2 ^ nat (e - f)) n
      else round64 (s \<noteq> t) m (n * 2 ^ nat (f - e)))"

text \<open>
  The fused multiply-add \<open>x * y + z\<close>: the exact product is added to \<open>z\<close> and the sum
  is rounded once. When \<open>x\<close> or \<open>y\<close> is not finite the product is an infinity or NaN and
  nothing is rounded, so the result is that of the addition.
\<close>

fun ffma :: "float64 \<Rightarrow> float64 \<Rightarrow> float64 \<Rightarrow> float64" where
  "ffma (Fin s m e) (Fin t n f) (Fin u k h) =
     (if m = 0 \<or> n = 0 then (if k = 0 then zero64 ((s \<noteq> t) \<and> u) else Fin u k h)
      else if k = 0 then round_scaled (s \<noteq> t) (m * n) (e + f)
      else
        let g = min (e + f) h;
            c = signed (s \<noteq> t) (m * n * 2 ^ nat (e + f - g)) + signed u (k * 2 ^ nat (h - g))
        in if c = 0 then zero64 False else round_scaled (c < 0) (nat \<bar>c\<bar>) g)"
| "ffma (Fin s m e) (Fin t n f) z = z"
| "ffma x y z = fadd (fmul x y) z"

text \<open>
  Go lets an implementation fuse \<open>x * y + z\<close> into one operation with a single rounding
  where no explicit conversion stands between the product and the sum; the compiler does
  so on arm64, ppc64le, s390x, riscv64 and on amd64 with \<open>GOAMD64=v3\<close>, and rounds the
  product and the sum separately elsewhere. \<open>mul_add fuse x y z\<close> is the value of the
  source expression \<open>x * y + z\<close> on a build that fuses (\<open>fuse = True\<close>) or does not.
\<close>

definition mul_add :: "bool \<Rightarrow> float64 \<Rightarrow> float64 \<Rightarrow> float64 \<Rightarrow> float64" where
  "mul_add fuse x y z = (if fuse then ffma x y z else fadd (fmul x y) z)"

text \<open>
  A numeric constant of the source converted to \<open>float64\<close>: \<open>float64_const n d\<close> is the
  \<open>float64\<close> nearest to the fraction \<open>n / d\<close>, so \<open>273.15\<close> is \<open>float64_const 27315 100\<close>.
  The conversion \<open>float64(a)\<close> of an \<open>int\<close> rounds in the same way.
\<close>

definition float64_const :: "int \<Rightarrow> nat \<Rightarrow> float64" where
  "float64_const n d = (if n = 0 then zero64 False else round64 (n < 0) (nat \<bar>n\<bar>) d)"

definition float64_of_int :: "go_int \<Rightarrow> float64" where
  "float64_of_int a = float64_const (sint a) 1"

text \<open>
  The bit pattern of a value, as \<open>math.Float64bits\<close> shows it: sign, eleven bits of
  biased exponent, fifty-two bits of fraction. The model keeps one NaN and neither its sign
  nor its payload, which differ between the NaNs a machine produces, so a NaN has no bit
  pattern here.
\<close>

definition Float64bits :: "float64 \<Rightarrow> 64 word option" where
  "Float64bits x =
     (case x of
        NaN \<Rightarrow> None
      | Infty s \<Rightarrow> Some (if s then 0xFFF0000000000000 else 0x7FF0000000000000)
      | Fin s m e \<Rightarrow>
          Some ((if s then 0x8000000000000000 else 0)
                + (if m < 2 ^ 52 then of_nat m
                   else push_bit 52 (word_of_int (e + 1074)) + of_nat m)))"

section \<open>The temperature converter\<close>

text \<open>
  \<^verbatim>\<open>
  type Temp = uint8
  const ( Celsius Temp = iota; Fahrenheit; Kelvin )

  func TempConvertor(temp float64, mode Temp) (celsius, fahrenheit, kelvin float64) {
      nineOverFive := (float64(9) / float64(5))
      fiveOverNine := (float64(5) / float64(9))
      switch mode {
      case Celsius:
          celsius = temp
          kelvin = celsius + 273.15
          fahrenheit = (celsius * nineOverFive) + 32
      case Fahrenheit:
          fahrenheit = temp
          celsius = (fahrenheit - 32) * fiveOverNine
          kelvin = ((fahrenheit - 32) * fiveOverNine) + 273.15
      case Kelvin:
          kelvin = temp
          celsius = kelvin - 273.15
          fahrenheit = ((kelvin - 273.15) * nineOverFive) + 32
      default:
          return 0, 0, 0
      }
      return
  }
  \<close>
\<close>

type_synonym Temp = "8 word"

definition Celsius :: Temp where
  "Celsius = 0"

definition Fahrenheit :: Temp where
  "Fahrenheit = 1"

definition Kelvin :: Temp where
  "Kelvin = 2"

text \<open>
  The three sums of a product in the source, \<open>(celsius * nineOverFive) + 32\<close>,
  \<open>((fahrenheit - 32) * fiveOverNine) + 273.15\<close> and
  \<open>((kelvin - 273.15) * nineOverFive) + 32\<close>, have no conversion between the product and
  the sum, so what they return depends on the build: the first argument \<open>fuse\<close> tells
  whether the build fuses them. The two constants \<open>float64(9) / float64(5)\<close> and
  \<open>float64(5) / float64(9)\<close>, the differences and the lone product
  \<open>(fahrenheit - 32) * fiveOverNine\<close> are single operations on every build.
\<close>

definition TempConvertor ::
  "bool \<Rightarrow> float64 \<Rightarrow> Temp \<Rightarrow> float64 \<times> float64 \<times> float64" where
  "TempConvertor fuse temp mode =
     (let nineOverFive = fdiv (float64_const 9 1) (float64_const 5 1);
          fiveOverNine = fdiv (float64_const 5 1) (float64_const 9 1)
      in if mode = Celsius then
           (let celsius = temp;
                kelvin = fadd celsius (float64_const 27315 100);
                fahrenheit = mul_add fuse celsius nineOverFive (float64_const 32 1)
            in (celsius, fahrenheit, kelvin))
         else if mode = Fahrenheit then
           (let fahrenheit = temp;
                celsius = fmul (fsub fahrenheit (float64_const 32 1)) fiveOverNine;
                kelvin = mul_add fuse (fsub fahrenheit (float64_const 32 1)) fiveOverNine
                                 (float64_const 27315 100)
            in (celsius, fahrenheit, kelvin))
         else if mode = Kelvin then
           (let kelvin = temp;
                celsius = fsub kelvin (float64_const 27315 100);
                fahrenheit = mul_add fuse (fsub kelvin (float64_const 27315 100)) nineOverFive
                                     (float64_const 32 1)
            in (celsius, fahrenheit, kelvin))
         else (float64_const 0 1, float64_const 0 1, float64_const 0 1))"

section \<open>Division with an error result\<close>

text \<open>
  \<^verbatim>\<open>
  func divide(a, b int) (result float64, err error) {
      if b == 0 {
          err = errors.New("Cannot divide by zero!")
      }
      result = float64(a) / float64(b)
      return
  }
  \<close>
  The function is named \<open>divide_go\<close> here. An \<open>error\<close> result is \<open>None\<close> for
  \<open>nil\<close>; \<open>errors.New\<close> makes an error that carries its text. There is no return
  inside the \<open>if\<close>: the quotient is computed on both paths.
\<close>

datatype error = errorString string

definition divide_go :: "go_int \<Rightarrow> go_int \<Rightarrow> float64 \<times> error option" where
  "divide_go a b =
     (let err = (if b = 0 then Some (errorString ''Cannot divide by zero!'') else None);
          result = fdiv (float64_of_int a) (float64_of_int b)
      in (result, err))"

section \<open>Remainders and divisibility\<close>

lemma smod_zero_iff_dvd: "(k::int) smod l = 0 \<longleftrightarrow> l dvd k"
proof -
  have "k smod l = 0 \<longleftrightarrow> \<bar>k\<bar> mod \<bar>l\<bar> = 0"
    by (cases "k = 0") (simp_all add: signed_modulo_int_def sgn_if)
  also have "\<dots> \<longleftrightarrow> \<bar>l\<bar> dvd \<bar>k\<bar>"
    by (simp add: dvd_eq_mod_eq_0)
  finally show ?thesis by simp
qed

lemma smod_abs_less: "0 < l \<Longrightarrow> \<bar>(k::int) smod l\<bar> < l"
  by (simp add: signed_modulo_int_def abs_mult sgn_if)

lemma word_of_int_small_zero:
  assumes "\<bar>i\<bar> < 2 ^ 64"
  shows "(word_of_int i :: 64 word) = 0 \<longleftrightarrow> i = 0"
proof
  assume "(word_of_int i :: 64 word) = 0"
  then have "(2::int) ^ 64 dvd i" by (simp add: word_of_int_eq_0_iff)
  then have "(2::int) ^ 64 dvd \<bar>i\<bar>" by simp
  with assms show "i = 0" using zdvd_not_zless [of "\<bar>i\<bar>" "2 ^ 64"] by fastforce
qed simp

lemma go_rem_zero_iff:
  assumes "0 < sint b"
  shows "go_rem n b = 0 \<longleftrightarrow> sint b dvd sint n"
proof -
  have "\<bar>sint n smod sint b\<bar> < sint b" using assms by (rule smod_abs_less)
  moreover have "sint b < 2 ^ 64" using sint_lt [of b] by simp
  ultimately have "\<bar>sint n smod sint b\<bar> < 2 ^ 64" by linarith
  then show ?thesis
    by (simp add: go_rem_def word_of_int_small_zero smod_zero_iff_dvd)
qed

lemma go_rem_15: "go_rem n 15 = 0 \<longleftrightarrow> 15 dvd sint n"
  using go_rem_zero_iff [of 15 n] by simp

lemma go_rem_3: "go_rem n 3 = 0 \<longleftrightarrow> 3 dvd sint n"
  using go_rem_zero_iff [of 3 n] by simp

lemma go_rem_5: "go_rem n 5 = 0 \<longleftrightarrow> 5 dvd sint n"
  using go_rem_zero_iff [of 5 n] by simp

lemma dvd_15_iff: "(15::int) dvd k \<longleftrightarrow> 3 dvd k \<and> 5 dvd k"
  by presburger

section \<open>The decimal rendering denotes the number\<close>

lemma digits_value_snoc:
  "digits_value (s @ [c]) = 10 * digits_value s + (of_char c - 48)"
  by (simp add: digits_value_def)

lemma of_char_digit: "d < 10 \<Longrightarrow> (of_char (char_of (48 + d)) :: nat) = 48 + d"
  for d :: nat
  by (simp add: of_char_of)

lemma digits_value_digits: "digits_value (digits n) = n"
proof (induction n rule: digits.induct)
  case (1 n)
  show ?case
  proof (cases "n < 10")
    case True
    then show ?thesis
      by (subst digits.simps) (simp add: digits_value_def of_char_digit)
  next
    case False
    have "digits_value (digits n) =
        10 * digits_value (digits (n div 10)) + (of_char (char_of (48 + n mod 10)) - 48)"
      using False by (subst digits.simps) (simp add: digits_value_snoc)
    also have "\<dots> = 10 * (n div 10) + n mod 10"
      using False "1.IH" by (simp add: of_char_digit)
    finally show ?thesis by simp
  qed
qed

section \<open>FizzBuzz: the claims\<close>

text \<open>
  C1. \<open>FizzBuzz(15)\<close> returns the string \<open>"FizzBuzz"\<close> as its first result.
\<close>

theorem FizzBuzz_15: "fst (FizzBuzz 15) = ''FizzBuzz''"
  by (simp add: FizzBuzz_def go_rem_def)

text \<open>
  C3. For every \<open>int\<close> value \<open>n\<close> the string result is chosen by divisibility of the signed
  value: \<open>"FizzBuzz"\<close> when 15 divides it, otherwise \<open>"Fizz"\<close> when 3 divides it, otherwise
  \<open>"Buzz"\<close> when 5 divides it, and otherwise the decimal rendering of \<open>n\<close>, which
  \<open>fmt.Sprint\<close> produces.
\<close>

theorem FizzBuzz_modulus:
  "fst (FizzBuzz n) =
     (if 15 dvd sint n then ''FizzBuzz''
      else if 3 dvd sint n then ''Fizz''
      else if 5 dvd sint n then ''Buzz''
      else Sprint n)"
  by (simp add: FizzBuzz_def go_rem_15 go_rem_3 go_rem_5)

text \<open>
  C6. The second result \<open>wasModified\<close> is true exactly when 3 or 5 divides \<open>n\<close>; when it is
  false the string result is the decimal rendering of \<open>n\<close>; and \<open>FizzBuzz(0)\<close> is
  \<open>("FizzBuzz", true)\<close>.
\<close>

theorem FizzBuzz_wasModified:
  "(snd (FizzBuzz n) \<longleftrightarrow> 3 dvd sint n \<or> 5 dvd sint n)
   \<and> (\<not> snd (FizzBuzz n) \<longrightarrow> fst (FizzBuzz n) = Sprint n)
   \<and> FizzBuzz 0 = (''FizzBuzz'', True)"
  by (simp add: FizzBuzz_def go_rem_15 go_rem_3 go_rem_5 dvd_15_iff)

theorem FizzBuzz_wasModified_witness:
  "\<not> snd (FizzBuzz 7) \<and> fst (FizzBuzz 7) = ''7''
   \<and> snd (FizzBuzz 10) \<and> fst (FizzBuzz 10) = ''Buzz''"
proof -
  have s: "Sprint 7 = ''7''" by code_simp
  have m: "\<not> snd (FizzBuzz 7)" using FizzBuzz_wasModified [of 7] by simp
  have "fst (FizzBuzz 7) = ''7''" using FizzBuzz_wasModified [of 7] m s by simp
  moreover have "snd (FizzBuzz 10)" using FizzBuzz_wasModified [of 10] by simp
  moreover have "fst (FizzBuzz 10) = ''Buzz''" by (simp add: FizzBuzz_def go_rem_def)
  ultimately show ?thesis using m by simp
qed

section \<open>The generator: the claim\<close>

lemma invoke_n_nth:
  "k < n \<Longrightarrow> invoke_n n c ! k = captured_id c + 1 + of_nat k"
proof (induction n arbitrary: c k)
  case 0
  then show ?case by simp
next
  case (Suc n)
  show ?case
  proof (cases k)
    case 0
    then show ?thesis by (simp add: invoke_def Let_def)
  next
    case (Suc j)
    with Suc.prems have "j < n" by simp
    then have "invoke_n n (Closure (captured_id c + 1)) ! j = captured_id c + 1 + 1 + of_nat j"
      using Suc.IH [of j "Closure (captured_id c + 1)"] by simp
    then show ?thesis using Suc by (simp add: invoke_def Let_def)
  qed
qed

text \<open>
  C5. The function returned by \<open>idGenerator(start)\<close> is a generator: its first call returns
  \<open>start\<close>; every call adds one to the captured variable and returns the new value; and for
  every \<open>k \<ge> 1\<close> the \<open>k\<close>-th call returns \<open>start + k - 1\<close>, computed as Go computes on
  \<open>int\<close> (with wrap-around), which is the exact integer \<open>start + k - 1\<close> whenever that
  fits the type.
\<close>

theorem idGenerator_generator:
  "fst (invoke (idGenerator start)) = start
   \<and> fst (invoke c) = captured_id c + 1
   \<and> captured_id (snd (invoke c)) = captured_id c + 1
   \<and> (1 \<le> k \<and> k \<le> n \<longrightarrow>
        invoke_n n (idGenerator start) ! (k - 1) = start + of_nat k - 1)
   \<and> (1 \<le> k \<and> k \<le> n \<and> sint start + int k - 1 < 2 ^ 63 \<longrightarrow>
        sint (invoke_n n (idGenerator start) ! (k - 1)) = sint start + int k - 1)"
proof -
  have nth: "invoke_n n (idGenerator start) ! (k - 1) = start + of_nat k - 1"
    if "1 \<le> k" "k \<le> n"
  proof -
    from that have "k - 1 < n" by simp
    then have "invoke_n n (idGenerator start) ! (k - 1) = start - 1 + 1 + of_nat (k - 1)"
      using invoke_n_nth [of "k - 1" n "idGenerator start"] by (simp add: idGenerator_def)
    also have "\<dots> = start + of_nat k - 1"
      using that by (simp add: of_nat_diff)
    finally show ?thesis .
  qed
  have exact: "sint (start + of_nat k - 1) = sint start + int k - 1"
    if "1 \<le> k" "sint start + int k - 1 < 2 ^ 63"
  proof -
    have "start + of_nat k - 1 = (word_of_int (sint start + int k - 1) :: go_int)"
      by simp
    moreover have "- (2 ^ 63) \<le> sint start + int k - 1"
      using that(1) sint_ge [of start] by simp
    ultimately show ?thesis
      using that(2) by (simp only: sint_sbintrunc') (simp add: signed_take_bit_int_eq_self)
  qed
  show ?thesis
    using nth exact by (simp add: invoke_def idGenerator_def Let_def)
qed

theorem idGenerator_generator_witness:
  "(1::nat) \<le> 2 \<and> (2::nat) \<le> 3 \<and> sint (5 :: go_int) + int 2 - 1 < 2 ^ 63
   \<and> invoke_n 3 (idGenerator 5) ! (2 - 1) = 5 + of_nat 2 - 1
   \<and> sint (invoke_n 3 (idGenerator 5) ! (2 - 1)) = 6"
  using idGenerator_generator [of 5 "Closure 0" 2 3] by simp

section \<open>The \<open>float64\<close> model at known values\<close>

lemmas round64_eval =
  float64_const_def round64_def round_scaled_def ilog2_def bit_length.simps
  round_nearest_even_def signed_def zero64_def fsub_def mul_add_def Let_def

text \<open>
  The bit patterns the model computes are the ones of IEEE 754: \<open>273.15\<close>, \<open>1.8\<close>,
  \<open>5/9\<close>, the sum \<open>0.1 + 0.2 = 0.30000000000000004\<close>, the tie \<open>2^53 + 1\<close> that rounds
  to the even \<open>2^53\<close>, the smallest subnormal number, and the quotients by zero.
\<close>

lemma Float64bits_273_15: "Float64bits (float64_const 27315 100) = Some 0x4071126666666666"
  by (simp add: round64_eval Float64bits_def)

lemma Float64bits_nine_fifths: "Float64bits (float64_const 9 5) = Some 0x3FFCCCCCCCCCCCCD"
  by (simp add: round64_eval Float64bits_def)

lemma Float64bits_five_ninths: "Float64bits (float64_const 5 9) = Some 0x3FE1C71C71C71C72"
  by (simp add: round64_eval Float64bits_def)

lemma Float64bits_tenth_plus_fifth:
  "Float64bits (fadd (float64_const 1 10) (float64_const 2 10)) = Some 0x3FD3333333333334"
  by (simp add: round64_eval Float64bits_def)

lemma Float64bits_tie_to_even:
  "Float64bits (float64_of_int 9007199254740993) = Some 0x4340000000000000"
  by (simp add: round64_eval Float64bits_def float64_of_int_def)

lemma Float64bits_min_int:
  "Float64bits (float64_of_int (- 9223372036854775808)) = Some 0xC3E0000000000000"
  by (simp add: round64_eval Float64bits_def float64_of_int_def)

lemma Float64bits_smallest: "Float64bits (float64_const 1 (2 ^ 1074)) = Some 1"
  by (simp add: round64_eval Float64bits_def)

lemma fdiv_by_zero_values:
  "fdiv (float64_const 1 1) (float64_const 0 1) = Infty False"
  "fdiv (float64_const (- 1) 1) (float64_const 0 1) = Infty True"
  "fdiv (float64_const 0 1) (float64_const 0 1) = NaN"
  by (simp_all add: round64_eval)

text \<open>
  One rounding and two roundings differ: \<open>0.1 * 10 - 1\<close> is \<open>2^(-54)\<close> fused and \<open>0\<close>
  otherwise, and \<open>3.6 * 1.8 + 32\<close> differs in its last bit.
\<close>

lemma ffma_tenth_times_ten:
  "Float64bits (mul_add True (float64_const 1 10) (float64_const 10 1) (float64_const (- 1) 1))
     = Some 0x3C90000000000000"
  "Float64bits (mul_add False (float64_const 1 10) (float64_const 10 1) (float64_const (- 1) 1))
     = Some 0"
  by (simp_all add: round64_eval Float64bits_def)

lemma mul_add_last_bit:
  "Float64bits (mul_add True (float64_const 36 10) (float64_const 9 5) (float64_const 32 1))
     = Some 0x40433D70A3D70A3D"
  "Float64bits (mul_add False (float64_const 36 10) (float64_const 9 5) (float64_const 32 1))
     = Some 0x40433D70A3D70A3E"
  by (simp_all add: round64_eval Float64bits_def)

lemma ffma_special_values:
  "ffma (Infty False) (float64_const 0 1) (float64_const 1 1) = NaN"
  "ffma (Infty False) (float64_const 2 1) (Infty True) = NaN"
  "ffma (float64_const 2 1) (float64_const 3 1) (Infty True) = Infty True"
  "ffma (float64_const 2 1) (float64_const 3 1) (float64_const (- 6) 1) = float64_const 0 1"
  "ffma (float64_const 2 1) (float64_const 3 1) NaN = NaN"
  by (simp_all add: round64_eval)

section \<open>Facts about the converter and the division\<close>

lemma nineOverFive_eq: "fdiv (float64_const 9 1) (float64_const 5 1) = float64_const 9 5"
  by (simp add: round64_eval)

lemma fiveOverNine_eq: "fdiv (float64_const 5 1) (float64_const 9 1) = float64_const 5 9"
  by (simp add: round64_eval)

lemma modes_distinct:
  "Celsius \<noteq> Fahrenheit" "Celsius \<noteq> Kelvin" "Fahrenheit \<noteq> Kelvin"
  "Fahrenheit \<noteq> Celsius" "Kelvin \<noteq> Celsius" "Kelvin \<noteq> Fahrenheit"
  by (simp_all add: Celsius_def Fahrenheit_def Kelvin_def)

lemma float64_of_int_0: "float64_of_int 0 = zero64 False"
  by (simp add: float64_of_int_def float64_const_def)

lemma fdiv_zero_not_finite: "\<not> finite64 (fdiv x (zero64 s))"
  by (cases x) (simp_all add: zero64_def)

lemma mul_add_zero_nine_fifths:
  "mul_add fuse (float64_const 0 1) (float64_const 9 5) (float64_const 32 1) = float64_const 32 1"
  by (cases fuse) (simp_all add: round64_eval)

section \<open>The temperature converter: the claims\<close>

text \<open>
  C2. \<open>TempConvertor(0, Celsius)\<close> returns \<open>(celsius, fahrenheit, kelvin) = (0, 32, 273.15)\<close>,
  each number being the \<open>float64\<close> that the constant denotes, whether or not the build
  fuses the multiplication with the addition.
\<close>

theorem TempConvertor_zero_Celsius:
  "TempConvertor fuse (float64_const 0 1) Celsius =
     (float64_const 0 1, float64_const 32 1, float64_const 27315 100)"
proof -
  have k: "fadd (float64_const 0 1) (float64_const 27315 100) = float64_const 27315 100"
    by (simp add: round64_eval)
  show ?thesis
    unfolding TempConvertor_def Let_def nineOverFive_eq mul_add_zero_nine_fifths k
    by simp
qed

text \<open>
  C4, as the code has it. For every \<open>temp\<close>, each of the three modes and either kind of
  build: the output of the input scale is \<open>temp\<close> itself; \<open>celsius\<close> is \<open>temp\<close>,
  \<open>(fahrenheit - 32) * 5/9\<close> or \<open>kelvin - 273.15\<close>; \<open>kelvin = celsius + 273.15\<close> in Celsius
  mode; and the outputs that the source computes as a product plus a constant,
  \<open>fahrenheit = celsius * 9/5 + 32\<close> in Celsius and Kelvin mode and
  \<open>kelvin = (fahrenheit - 32) * 5/9 + 273.15\<close> in Fahrenheit mode, are that expression in
  \<open>float64\<close>, rounded once where the build fuses and after each operation where it does
  not. The constants \<open>9/5\<close>, \<open>5/9\<close>, \<open>32\<close> and \<open>273.15\<close> are the nearest \<open>float64\<close>
  values. On a build that does not fuse, \<open>kelvin = celsius + 273.15\<close> holds in Fahrenheit
  mode as well.
\<close>

theorem TempConvertor_formulas:
  "(mode = Celsius \<longrightarrow>
      (case TempConvertor fuse temp mode of (celsius, fahrenheit, kelvin) \<Rightarrow>
         celsius = temp
         \<and> fahrenheit = mul_add fuse celsius (float64_const 9 5) (float64_const 32 1)
         \<and> kelvin = fadd celsius (float64_const 27315 100)))
   \<and> (mode = Fahrenheit \<longrightarrow>
      (case TempConvertor fuse temp mode of (celsius, fahrenheit, kelvin) \<Rightarrow>
         fahrenheit = temp
         \<and> celsius = fmul (fsub fahrenheit (float64_const 32 1)) (float64_const 5 9)
         \<and> kelvin = mul_add fuse (fsub fahrenheit (float64_const 32 1)) (float64_const 5 9)
                              (float64_const 27315 100)
         \<and> (\<not> fuse \<longrightarrow> kelvin = fadd celsius (float64_const 27315 100))))
   \<and> (mode = Kelvin \<longrightarrow>
      (case TempConvertor fuse temp mode of (celsius, fahrenheit, kelvin) \<Rightarrow>
         kelvin = temp
         \<and> celsius = fsub kelvin (float64_const 27315 100)
         \<and> fahrenheit = mul_add fuse celsius (float64_const 9 5) (float64_const 32 1)))"
  unfolding TempConvertor_def Let_def nineOverFive_eq fiveOverNine_eq
  by (simp add: modes_distinct mul_add_def)

theorem TempConvertor_formulas_witness:
  "TempConvertor True (float64_const 100 1) Celsius =
     (float64_const 100 1, float64_const 212 1, float64_const 37315 100)
   \<and> TempConvertor False (float64_const 212 1) Fahrenheit =
     (float64_const 100 1, float64_const 212 1, float64_const 37315 100)
   \<and> TempConvertor True (float64_const 27315 100) Kelvin =
     (float64_const 0 1, float64_const 32 1, float64_const 27315 100)"
proof -
  have f1: "mul_add True (float64_const 100 1) (float64_const 9 5) (float64_const 32 1)
      = float64_const 212 1"
    by (simp add: round64_eval)
  have k1: "fadd (float64_const 100 1) (float64_const 27315 100) = float64_const 37315 100"
    by (simp add: round64_eval)
  have c2: "fmul (fsub (float64_const 212 1) (float64_const 32 1)) (float64_const 5 9)
      = float64_const 100 1"
    by (simp add: round64_eval)
  have c3: "fsub (float64_const 27315 100) (float64_const 27315 100) = float64_const 0 1"
    by (simp add: round64_eval)
  have f3: "mul_add True (float64_const 0 1) (float64_const 9 5) (float64_const 32 1)
      = float64_const 32 1"
    by (rule mul_add_zero_nine_fifths)
  have "TempConvertor True (float64_const 100 1) Celsius =
      (float64_const 100 1, float64_const 212 1, float64_const 37315 100)"
    using TempConvertor_formulas
      [where mode = Celsius and fuse = True and temp = "float64_const 100 1"]
    by (simp only: f1 k1 split: prod.splits)
  moreover have "TempConvertor False (float64_const 212 1) Fahrenheit =
      (float64_const 100 1, float64_const 212 1, float64_const 37315 100)"
  proof -
    obtain c f k where r: "TempConvertor False (float64_const 212 1) Fahrenheit = (c, f, k)"
      using prod_cases3 by blast
    have "f = float64_const 212 1
        \<and> c = fmul (fsub (float64_const 212 1) (float64_const 32 1)) (float64_const 5 9)
        \<and> k = fadd c (float64_const 27315 100)"
      using TempConvertor_formulas
        [where mode = Fahrenheit and fuse = False and temp = "float64_const 212 1"]
      unfolding r by (auto simp: modes_distinct)
    then have "f = float64_const 212 1" "c = float64_const 100 1"
      "k = fadd c (float64_const 27315 100)"
      by (simp_all only: c2)
    then show ?thesis
      by (simp only: r k1)
  qed
  moreover have "TempConvertor True (float64_const 27315 100) Kelvin =
      (float64_const 0 1, float64_const 32 1, float64_const 27315 100)"
    using TempConvertor_formulas
      [where mode = Kelvin and fuse = True and temp = "float64_const 27315 100"]
    by (simp only: c3 f3 modes_distinct split: prod.splits)
  ultimately show ?thesis by simp
qed

text \<open>
  C4, as the claim states it, fails on a build that fuses: at \<open>-459.67\<close> degrees
  Fahrenheit the returned \<open>kelvin\<close> is the once-rounded
  \<open>(fahrenheit - 32) * 5/9 + 273.15\<close>, about \<open>-4.37e-14\<close>, while the returned \<open>celsius\<close>
  plus \<open>273.15\<close> is \<open>-2^(-44)\<close>, about \<open>-5.68e-14\<close>.
\<close>

theorem TempConvertor_fused_kelvin_counterexample:
  "TempConvertor True (float64_const (- 45967) 100) Fahrenheit =
     (Fin True 4805305618032231 (- 44), float64_const (- 45967) 100,
      Fin True 6926121833180110 (- 97))
   \<and> fadd (Fin True 4805305618032231 (- 44)) (float64_const 27315 100) =
      Fin True 4503599627370496 (- 96)
   \<and> snd (snd (TempConvertor True (float64_const (- 45967) 100) Fahrenheit)) \<noteq>
      fadd (fst (TempConvertor True (float64_const (- 45967) 100) Fahrenheit))
           (float64_const 27315 100)"
proof -
  have t: "TempConvertor True (float64_const (- 45967) 100) Fahrenheit =
     (Fin True 4805305618032231 (- 44), float64_const (- 45967) 100,
      Fin True 6926121833180110 (- 97))"
    by (simp add: TempConvertor_def Celsius_def Fahrenheit_def round64_eval)
  have a: "fadd (Fin True 4805305618032231 (- 44)) (float64_const 27315 100) =
      Fin True 4503599627370496 (- 96)"
    by (simp add: round64_eval)
  show ?thesis
    unfolding t using a by simp
qed

text \<open>
  C7. For every \<open>temp\<close> and every mode other than \<open>Celsius\<close> (0), \<open>Fahrenheit\<close> (1) and
  \<open>Kelvin\<close> (2), \<open>TempConvertor\<close> returns \<open>(0, 0, 0)\<close>.
\<close>

theorem TempConvertor_default:
  "mode \<noteq> Celsius \<and> mode \<noteq> Fahrenheit \<and> mode \<noteq> Kelvin \<longrightarrow>
     TempConvertor fuse temp mode = (float64_const 0 1, float64_const 0 1, float64_const 0 1)"
  by (simp add: TempConvertor_def Let_def)

theorem TempConvertor_default_witness:
  "(3 :: Temp) \<noteq> Celsius \<and> (3 :: Temp) \<noteq> Fahrenheit \<and> (3 :: Temp) \<noteq> Kelvin
   \<and> TempConvertor False (float64_const 100 1) 3 =
       (float64_const 0 1, float64_const 0 1, float64_const 0 1)
   \<and> TempConvertor True (float64_const 100 1) 3 =
       (float64_const 0 1, float64_const 0 1, float64_const 0 1)"
  using TempConvertor_default [where mode = 3 and fuse = False and temp = "float64_const 100 1"]
    TempConvertor_default [where mode = 3 and fuse = True and temp = "float64_const 100 1"]
  by (simp add: Celsius_def Fahrenheit_def Kelvin_def)

section \<open>The division: the claim\<close>

text \<open>
  C8. For all \<open>int\<close> values \<open>a\<close> and \<open>b\<close>, \<open>divide(a, b)\<close> returns a non-nil error exactly
  when \<open>b = 0\<close>; the result is \<open>float64(a) / float64(b)\<close>, with a nil error when \<open>b\<close> is not
  zero; and when \<open>b = 0\<close> that quotient is still returned beside the error and is not a
  finite number.
\<close>

theorem divide_go_error:
  "(snd (divide_go a b) \<noteq> None \<longleftrightarrow> b = 0)
   \<and> (b \<noteq> 0 \<longrightarrow> snd (divide_go a b) = None
         \<and> fst (divide_go a b) = fdiv (float64_of_int a) (float64_of_int b))
   \<and> (b = 0 \<longrightarrow> fst (divide_go a b) = fdiv (float64_of_int a) (float64_of_int 0)
         \<and> \<not> finite64 (fst (divide_go a b)))"
  by (simp add: divide_go_def Let_def float64_of_int_0 fdiv_zero_not_finite)

theorem divide_go_error_witness:
  "(2 :: go_int) \<noteq> 0 \<and> divide_go 1 2 = (float64_const 1 2, None)
   \<and> snd (divide_go 7 0) \<noteq> None \<and> fst (divide_go 7 0) = Infty False
   \<and> \<not> finite64 (fst (divide_go 7 0))"
proof -
  have q: "fdiv (float64_of_int 1) (float64_of_int 2) = float64_const 1 2"
    by (simp add: float64_of_int_def round64_eval)
  have z: "fdiv (float64_of_int 7) (float64_of_int 0) = Infty False"
    by (simp add: float64_of_int_def round64_eval)
  have "divide_go 1 2 = (float64_const 1 2, None)"
    using divide_go_error [of 1 2] q by (simp add: prod_eq_iff)
  moreover have "snd (divide_go 7 0) \<noteq> None \<and> fst (divide_go 7 0) = Infty False
      \<and> \<not> finite64 (fst (divide_go 7 0))"
    using divide_go_error [of 7 0] z by simp
  ultimately show ?thesis by simp
qed

end
